theory Spec2Isabelle
  imports Main
begin

section \<open>The question-answering session of main_v1.py\<close>

text \<open>
  The development embeds the session loop of \<open>main\<close> (lines 196 to 224) with the
  two methods of \<open>LLMInvoker\<close> and \<open>Tools.call_tool_func\<close> that it calls.
  The retriever, the language model, the groundedness service and the libraries are
  outside the repository: they are parameters of the model. Every call to one of
  them is appended to a log, and each service may answer from the log of the calls
  made so far, so a service that answers differently each time it is asked
  is covered; a deterministic service is one that ignores the log. The services
  are total functions: a call that raises or never returns is not modelled.
  The statements before the loop (ingestion, database, construction of the
  objects) are not embedded; the loop starts with \<open>tool\<close> bound to an instance of
  \<open>Tools\<close>, as line 193 means to bind it. Run as written, line 193 does not get
  that far: the body of \<open>Tools.__init__\<close> reads \<open>pdf_search\<close> as a global name,
  which the module never binds, and raises \<open>NameError\<close>. The statements below are
  about the loop from line 196 on, given such an instance.
\<close>

subsection \<open>Strings\<close>

text \<open>
  Strings are lists of 8-bit characters, read as the code points 0 to 255.
  \<open>str.lower\<close> on that range maps A..Z and the capital letters 192..222
  (215, the multiplication sign, apart) to the code point 32 higher.
\<close>

definition lower_char :: "char \<Rightarrow> char" where
  "lower_char c =
     (let n = (of_char c :: nat)
      in if 65 \<le> n \<and> n \<le> 90 then char_of (n + 32)
         else if 192 \<le> n \<and> n \<le> 222 \<and> n \<noteq> 215 then char_of (n + 32)
         else c)"

definition lower :: "string \<Rightarrow> string" where
  "lower s = map lower_char s"

definition startswith :: "string \<Rightarrow> string \<Rightarrow> bool" where
  "startswith s p = (take (length p) s = p)"

definition spaces :: "nat \<Rightarrow> string" where
  "spaces n = replicate n (CHR '' '')"

subsection \<open>Data\<close>

text \<open>A tool call is the dictionary the model returns: a name and an argument map.\<close>

record tool_call =
  name :: string
  args :: "(string \<times> string) list"

datatype error = TypeError | AttributeError | EOFError

text \<open>What \<open>call_tool_func\<close> can return: \<open>None\<close>, or the text a tool produced.\<close>

datatype pyval = PyNone | PyStr string

text \<open>The objects that reach \<open>call_tool_func\<close> as positional arguments.\<close>

datatype pyarg = ToolsInstance | ToolCallArg tool_call

fun str_py :: "pyval \<Rightarrow> string" where
  "str_py PyNone = ''None''"
| "str_py (PyStr x) = x"

text \<open>
  A prompt template after \<open>PromptTemplate.from_template\<close>: literal text and the
  two named slots.
\<close>

datatype segment = Lit string | Slot_context | Slot_question

fun render_segment :: "string \<Rightarrow> string \<Rightarrow> segment \<Rightarrow> string" where
  "render_segment context question (Lit x) = x"
| "render_segment context question Slot_context = context"
| "render_segment context question Slot_question = question"

definition render :: "segment list \<Rightarrow> string \<Rightarrow> string \<Rightarrow> string" where
  "render template context question = concat (map (render_segment context question) template)"

text \<open>The template literal of lines 200 to 203, the same at lines 220 to 223.\<close>

definition answer_template :: "segment list" where
  "answer_template =
     [Lit (''Answer the question based only on the following context:\<newline>'' @ spaces 56),
      Slot_context,
      Lit ('' \<newline>'' @ spaces 56 @ ''Question: ''),
      Slot_question,
      Lit ('' \<newline>'' @ spaces 53)]"

subsection \<open>External services and the state of a session\<close>

datatype call = Retrieve string | Generate string | Verify string | ToolProbe string

datatype written = Prompted string | Printed string

record state =
  calls :: "call list"
  out :: "written list"

text \<open>
  \<open>retriever\<close> is \<open>self.retriever\<close> with its documents rendered as text,
  \<open>llm\<close> is \<open>self.llm | StrOutputParser()\<close> on a rendered prompt,
  \<open>llm_tool_calls\<close> is \<open>llm_invoker.llm.invoke(user_input).tool_calls\<close>,
  \<open>groundedness\<close> is \<open>UpstageGroundednessCheck().invoke\<close>, and
  \<open>third_party_invoke n a\<close> is \<open>x.invoke(a)\<close> for the object \<open>x\<close> that the
  module imports under the name \<open>n\<close> from a package outside the standard library.
\<close>

record services =
  retriever :: "call list \<Rightarrow> string \<Rightarrow> string"
  llm :: "call list \<Rightarrow> string \<Rightarrow> string"
  llm_tool_calls :: "call list \<Rightarrow> string \<Rightarrow> tool_call list"
  groundedness :: "call list \<Rightarrow> string \<Rightarrow> string"
  third_party_invoke :: "string \<Rightarrow> (string \<times> string) list \<Rightarrow> error + pyval"

definition log_call :: "call \<Rightarrow> state \<Rightarrow> state" where
  "log_call c s = s\<lparr>calls := calls s @ [c]\<rparr>"

definition print_line :: "string \<Rightarrow> state \<Rightarrow> state" where
  "print_line x s = s\<lparr>out := out s @ [Printed x]\<rparr>"

definition prompt_user :: "string \<Rightarrow> state \<Rightarrow> state" where
  "prompt_user x s = s\<lparr>out := out s @ [Prompted x]\<rparr>"

subsection \<open>LLMInvoker\<close>

definition invokellm :: "services \<Rightarrow> string \<Rightarrow> segment list \<Rightarrow> state \<Rightarrow> string \<times> state" where
  "invokellm svc question template s =
     (let context = retriever svc (calls s) question;
          s1 = log_call (Retrieve question) s;
          prompt = render template context question;
          response = llm svc (calls s1) prompt;
          s2 = log_call (Generate prompt) s1
      in (response, s2))"

definition groundedness_check :: "services \<Rightarrow> string \<Rightarrow> state \<Rightarrow> bool \<times> state" where
  "groundedness_check svc response s =
     (let groundedness_result = groundedness svc (calls s) response;
          s1 = log_call (Verify response) s
      in (startswith (lower groundedness_result) ''Grounded'', s1))"

subsection \<open>Tools.call_tool_func\<close>

text \<open>
  The names bound in the module's global namespace when the loop runs, each with
  where its object comes from: the interpreter, the standard library, a package
  outside it, or a \<open>class\<close> or \<open>def\<close> statement of the module. \<open>pdf_search\<close> and
  \<open>internet_search\<close> are bound in the body of class \<open>Tools\<close>, not here.
\<close>

datatype binding = Interpreter | StdLib | ThirdParty | Defined

definition module_globals :: "(string \<times> binding) list" where
  "module_globals =
     [(''__name__'', Interpreter), (''__doc__'', Interpreter), (''__package__'', Interpreter),
      (''__loader__'', Interpreter), (''__spec__'', Interpreter),
      (''__annotations__'', Interpreter), (''__builtins__'', Interpreter),
      (''__file__'', Interpreter), (''__cached__'', Interpreter),
      (''os'', StdLib), (''warnings'', StdLib), (''pprint'', StdLib), (''time'', StdLib),
      (''load_dotenv'', ThirdParty), (''OpenAI'', ThirdParty), (''oracledb'', ThirdParty),
      (''TavilyClient'', ThirdParty), (''UpstageLayoutAnalysisLoader'', ThirdParty),
      (''UpstageEmbeddings'', ThirdParty), (''ChatUpstage'', ThirdParty),
      (''UpstageGroundednessCheck'', ThirdParty), (''HumanMessage'', ThirdParty),
      (''SystemMessage'', ThirdParty), (''oraclevs'', ThirdParty), (''OracleVS'', ThirdParty),
      (''DistanceStrategy'', ThirdParty), (''BaseDocumentTransformer'', ThirdParty),
      (''Document'', ThirdParty), (''PromptTemplate'', ThirdParty), (''LLMChain'', ThirdParty),
      (''RunnablePassthrough'', ThirdParty), (''StrOutputParser'', ThirdParty),
      (''Language'', ThirdParty), (''RecursiveCharacterTextSplitter'', ThirdParty),
      (''tool'', ThirdParty),
      (''DataLoader'', Defined), (''UpstageAPI'', Defined), (''OracleDB'', Defined),
      (''EmbeddingSettings'', Defined), (''LLMInvoker'', Defined), (''OracleDBIndex'', Defined),
      (''Tools'', Defined), (''main'', Defined)]"

definition globals_dict :: "string \<rightharpoonup> binding" where
  "globals_dict = map_of module_globals"

text \<open>
  \<open>selected_tool.invoke(a)\<close> for the object bound to a global name. The values the
  interpreter binds, the modules \<open>os\<close>, \<open>warnings\<close>, \<open>time\<close>, the function \<open>pprint\<close>,
  the classes of this module and \<open>main\<close> have no attribute \<open>invoke\<close>.
\<close>

fun invoke_global :: "services \<Rightarrow> string \<Rightarrow> binding \<Rightarrow> (string \<times> string) list \<Rightarrow> error + pyval" where
  "invoke_global svc n ThirdParty a = third_party_invoke svc n a"
| "invoke_global svc n b a = Inl AttributeError"

text \<open>
  The function object \<open>call_tool_func\<close>, applied to its positional arguments. It is
  declared with one parameter, \<open>tool_call\<close>: any other number of arguments raises
  \<open>TypeError\<close> before the body runs, and so does subscripting an instance of \<open>Tools\<close>.
\<close>

fun call_tool_func :: "services \<Rightarrow> pyarg list \<Rightarrow> state \<Rightarrow> (error + pyval) \<times> state" where
  "call_tool_func svc [ToolCallArg tool_call] s =
     (let tool_name = lower (name tool_call)
      in case globals_dict tool_name of
           None \<Rightarrow> (Inr PyNone, print_line (''Tool not found '' @ tool_name) s)
         | Some selected_tool \<Rightarrow> (invoke_global svc tool_name selected_tool (args tool_call), s))"
| "call_tool_func svc argv s = (Inl TypeError, s)"

text \<open>
  \<open>obj.call_tool_func(...)\<close> on an instance: the function is a plain attribute of
  the class (no \<open>staticmethod\<close>), so the instance is passed as the first argument.
\<close>

definition bound_call_tool_func :: "services \<Rightarrow> pyarg \<Rightarrow> pyarg list \<Rightarrow> state \<Rightarrow> (error + pyval) \<times> state" where
  "bound_call_tool_func svc self argv s = call_tool_func svc (self # argv) s"

subsection \<open>The loop of main\<close>

text \<open>
  Lines 208 to 211, \<open>for _ in range(n)\<close> with \<open>n = 3\<close>. The third argument is the
  value of the variable \<open>tool_calls\<close> before the loop, which a loop of at least one
  round overwrites.
\<close>

fun probe_loop :: "services \<Rightarrow> string \<Rightarrow> nat \<Rightarrow> tool_call list \<Rightarrow> state \<Rightarrow> tool_call list \<times> state" where
  "probe_loop svc user_input 0 tool_calls s = (tool_calls, s)"
| "probe_loop svc user_input (Suc n) tool_calls s =
     (let tool_calls' = llm_tool_calls svc (calls s) user_input;
          s1 = log_call (ToolProbe user_input) s
      in if tool_calls' \<noteq> [] then (tool_calls', s1)
         else probe_loop svc user_input n tool_calls' s1)"

text \<open>Lines 217 and 218, with \<open>tool\<close> the instance bound at line 193.\<close>

fun resolve_loop :: "services \<Rightarrow> tool_call list \<Rightarrow> string \<Rightarrow> state \<Rightarrow> (error + string) \<times> state" where
  "resolve_loop svc [] context s = (Inr context, s)"
| "resolve_loop svc (tool_call # rest) context s =
     (case bound_call_tool_func svc ToolsInstance [ToolCallArg tool_call] s of
        (Inl e, s1) \<Rightarrow> (Inl e, s1)
      | (Inr v, s1) \<Rightarrow> resolve_loop svc rest (context @ str_py v) s1)"

text \<open>How one round of the \<open>while\<close> loop ends.\<close>

datatype flow = Next_round | Break | Raise error

definition apology :: string where
  "apology = ''I'm sorry, I don't have an answer for that.''"

text \<open>
  Lines 208 to 224, the \<open>else\<close> branch. The call of line 220 takes the question
  and the template, as the call of line 200 does: the \<open>context\<close> built at lines 216
  to 218 is not among its arguments.
\<close>

definition fallback :: "services \<Rightarrow> string \<Rightarrow> state \<Rightarrow> flow \<times> state" where
  "fallback svc user_input s =
     (case probe_loop svc user_input 3 [] s of (tool_calls, s1) \<Rightarrow>
        if tool_calls = [] then (Break, print_line apology s1)
        else (case resolve_loop svc tool_calls [] s1 of
                (Inl e, s2) \<Rightarrow> (Raise e, s2)
              | (Inr context, s2) \<Rightarrow>
                  (case invokellm svc user_input answer_template s2 of (response, s3) \<Rightarrow>
                     (Next_round, print_line (''Bot: '' @ response) s3))))"

text \<open>Lines 200 to 224: one question.\<close>

definition question_body :: "services \<Rightarrow> string \<Rightarrow> state \<Rightarrow> flow \<times> state" where
  "question_body svc user_input s =
     (case invokellm svc user_input answer_template s of (response, s1) \<Rightarrow>
        (case groundedness_check svc response s1 of (grounded, s2) \<Rightarrow>
           if grounded then (Next_round, print_line (''Bot: '' @ response) s2)
           else fallback svc user_input s2))"

text \<open>
  Lines 196 to 224. Standard input is the list of the lines still to be read;
  \<open>input\<close> on an exhausted input raises \<open>EOFError\<close>. The result is the reason the
  loop ended, the lines left unread and the final state.
\<close>

datatype loop_end = Exit_command | No_answer_break | Uncaught error

fun session :: "services \<Rightarrow> string list \<Rightarrow> state \<Rightarrow> loop_end \<times> string list \<times> state" where
  "session svc [] s = (Uncaught EOFError, [], prompt_user ''You: '' s)"
| "session svc (user_input # rest) s =
     (let s0 = prompt_user ''You: '' s
      in if lower user_input \<in> set [''exit'', ''quit''] then (Exit_command, rest, s0)
         else (case question_body svc user_input s0 of
                 (Next_round, s1) \<Rightarrow> session svc rest s1
               | (Break, s1) \<Rightarrow> (No_answer_break, rest, s1)
               | (Raise e, s1) \<Rightarrow> (Uncaught e, rest, s1)))"

subsection \<open>Notions used in the statements\<close>

fun is_generate :: "call \<Rightarrow> bool" where
  "is_generate (Generate p) = True"
| "is_generate c = False"

fun is_probe :: "call \<Rightarrow> bool" where
  "is_probe (ToolProbe q) = True"
| "is_probe c = False"

text \<open>
  The prompt and the answer of the primary generation (line 200), and the state
  after the verification of line 204.
\<close>

definition primary_prompt :: "services \<Rightarrow> string \<Rightarrow> state \<Rightarrow> string" where
  "primary_prompt svc q s = render answer_template (retriever svc (calls s) q) q"

definition primary_response :: "services \<Rightarrow> string \<Rightarrow> state \<Rightarrow> string" where
  "primary_response svc q s = fst (invokellm svc q answer_template s)"

definition verified :: "services \<Rightarrow> string \<Rightarrow> state \<Rightarrow> state" where
  "verified svc q s =
     snd (groundedness_check svc (primary_response svc q s) (snd (invokellm svc q answer_template s)))"

text \<open>Services whose answers do not depend on the calls made before.\<close>

definition deterministic :: "services \<Rightarrow> bool" where
  "deterministic svc =
     (\<forall>h h' x. retriever svc h x = retriever svc h' x \<and> llm svc h x = llm svc h' x
        \<and> llm_tool_calls svc h x = llm_tool_calls svc h' x
        \<and> groundedness svc h x = groundedness svc h' x)"

subsection \<open>Concrete sessions\<close>

definition init_state :: state where
  "init_state = \<lparr>calls = [], out = []\<rparr>"

definition search_korea :: tool_call where
  "search_korea = \<lparr>name = ''internet_search'', args = [(''query'', ''capital of Korea'')]\<rparr>"

definition pdf_request :: tool_call where
  "pdf_request = \<lparr>name = ''pdf_search'', args = [(''query'', ''capital of Korea'')]\<rparr>"

definition unknown_tool :: tool_call where
  "unknown_tool = \<lparr>name = ''Weather_Lookup'', args = [(''query'', ''Seoul'')]\<rparr>"

definition os_request :: tool_call where
  "os_request = \<lparr>name = ''os'', args = []\<rparr>"

text \<open>An empty retrieval, an answer judged not grounded, and no tool call on any probe.\<close>

definition svc_no_tools :: services where
  "svc_no_tools =
     \<lparr>retriever = (\<lambda>h q. ''''), llm = (\<lambda>h p. ''I don't know''),
      llm_tool_calls = (\<lambda>h q. []), groundedness = (\<lambda>h r. ''notGrounded''),
      third_party_invoke = (\<lambda>n a. Inl AttributeError)\<rparr>"

text \<open>The same, with a web search requested on every probe.\<close>

definition svc_example :: services where
  "svc_example = svc_no_tools\<lparr>llm_tool_calls := (\<lambda>h q. [search_korea])\<rparr>"

text \<open>The same, with a web search requested on the second probe only.\<close>

definition svc_second_try :: services where
  "svc_second_try =
     svc_no_tools\<lparr>llm_tool_calls :=
        (\<lambda>h q. if length (filter is_probe h) = 1 then [search_korea] else [])\<rparr>"

text \<open>An answer that the groundedness service judges grounded.\<close>

definition svc_grounded :: services where
  "svc_grounded =
     \<lparr>retriever = (\<lambda>h q. ''Seoul is the capital of South Korea.''),
      llm = (\<lambda>h p. ''The capital of Korea is Seoul.''),
      llm_tool_calls = (\<lambda>h q. []), groundedness = (\<lambda>h r. ''grounded''),
      third_party_invoke = (\<lambda>n a. Inl AttributeError)\<rparr>"

section \<open>Properties\<close>

subsection \<open>The groundedness check\<close>

lemma lower_char_not_G: "lower_char c \<noteq> CHR ''G''"
proof -
  have "of_char (lower_char c) \<noteq> (71::nat)"
    unfolding lower_char_def Let_def by auto
  then show ?thesis by auto
qed

lemma lower_not_Grounded: "\<not> startswith (lower x) ''Grounded''"
  by (cases x) (simp_all add: startswith_def lower_def lower_char_not_G)

lemma groundedness_check_eq:
  "groundedness_check svc response s = (False, log_call (Verify response) s)"
  by (simp add: groundedness_check_def Let_def lower_not_Grounded)

text \<open>
  C3. Whatever string the groundedness service returns, \<open>groundedness_check\<close> returns
  \<open>False\<close>: a lower-cased string never starts with the capitalised literal
  \<open>Grounded\<close>. So a question never takes the branch of line 205: after the one
  verification it always runs the \<open>else\<close> branch.
\<close>

theorem groundedness_check_never_grounded:
  "fst (groundedness_check svc response s) = False
   \<and> question_body svc user_input s =
       fallback svc user_input
         (log_call (Verify (fst (invokellm svc user_input answer_template s)))
            (snd (invokellm svc user_input answer_template s)))"
  by (simp add: question_body_def groundedness_check_eq split: prod.splits)

subsection \<open>The shape of one question\<close>

lemma invokellm_eq:
  "invokellm svc q t s =
     (llm svc (calls s @ [Retrieve q]) (render t (retriever svc (calls s) q) q),
      s\<lparr>calls := calls s @ [Retrieve q, Generate (render t (retriever svc (calls s) q) q)]\<rparr>)"
  by (simp add: invokellm_def log_call_def Let_def)

lemma verified_eq:
  "verified svc q s =
     s\<lparr>calls := calls s @ [Retrieve q, Generate (primary_prompt svc q s),
                              Verify (primary_response svc q s)]\<rparr>"
  by (simp add: verified_def groundedness_check_eq primary_response_def primary_prompt_def
        invokellm_eq log_call_def)

lemma question_body_eq:
  "question_body svc q s = fallback svc q (verified svc q s)"
  by (simp add: question_body_def verified_def groundedness_check_eq primary_response_def
        split: prod.splits)

lemma resolve_loop_Cons:
  "resolve_loop svc (tc # rest) context s = (Inl TypeError, s)"
  by (simp add: bound_call_tool_func_def)

lemma fallback_eq:
  "fallback svc q s =
     (if fst (probe_loop svc q 3 [] s) = [] then (Break, print_line apology (snd (probe_loop svc q 3 [] s)))
      else (Raise TypeError, snd (probe_loop svc q 3 [] s)))"
  by (cases "probe_loop svc q 3 [] s"; cases "fst (probe_loop svc q 3 [] s)")
     (simp_all add: fallback_def bound_call_tool_func_def)

lemma probe_loop_all_empty:
  "(\<And>j. j < n \<Longrightarrow> llm_tool_calls svc (calls s @ replicate j (ToolProbe q)) q = []) \<Longrightarrow> 0 < n \<Longrightarrow>
   probe_loop svc q n tcs s = ([], s\<lparr>calls := calls s @ replicate n (ToolProbe q)\<rparr>)"
proof (induction n arbitrary: tcs s)
  case 0
  then show ?case by simp
next
  case (Suc n)
  have first: "llm_tool_calls svc (calls s) q = []"
    using Suc.prems(1)[of 0] by simp
  show ?case
  proof (cases n)
    case 0
    then show ?thesis using first by (simp add: log_call_def)
  next
    case (Suc m)
    have "probe_loop svc q n [] (log_call (ToolProbe q) s) =
            ([], (log_call (ToolProbe q) s)\<lparr>calls := calls (log_call (ToolProbe q) s) @ replicate n (ToolProbe q)\<rparr>)"
    proof (rule Suc.IH)
      fix j assume "j < n"
      then show "llm_tool_calls svc (calls (log_call (ToolProbe q) s) @ replicate j (ToolProbe q)) q = []"
        using Suc.prems(1)[of "Suc j"] by (simp add: log_call_def)
    next
      show "0 < n" using Suc by simp
    qed
    then show ?thesis using first by (simp add: log_call_def)
  qed
qed

lemma probe_loop_first_nonempty:
  "(\<And>j. j < k \<Longrightarrow> llm_tool_calls svc (calls s @ replicate j (ToolProbe q)) q = []) \<Longrightarrow>
   llm_tool_calls svc (calls s @ replicate k (ToolProbe q)) q \<noteq> [] \<Longrightarrow> k < n \<Longrightarrow>
   probe_loop svc q n tcs s =
     (llm_tool_calls svc (calls s @ replicate k (ToolProbe q)) q,
      s\<lparr>calls := calls s @ replicate (Suc k) (ToolProbe q)\<rparr>)"
proof (induction k arbitrary: n tcs s)
  case 0
  then obtain m where "n = Suc m" by (cases n) auto
  then show ?case using 0 by (simp add: log_call_def)
next
  case (Suc k)
  then obtain m where n: "n = Suc m" by (cases n) auto
  have first: "llm_tool_calls svc (calls s) q = []"
    using Suc.prems(1)[of 0] by simp
  have "probe_loop svc q m [] (log_call (ToolProbe q) s) =
     (llm_tool_calls svc (calls (log_call (ToolProbe q) s) @ replicate k (ToolProbe q)) q,
      (log_call (ToolProbe q) s)\<lparr>calls := calls (log_call (ToolProbe q) s) @ replicate (Suc k) (ToolProbe q)\<rparr>)"
  proof (rule Suc.IH)
    fix j assume "j < k"
    then show "llm_tool_calls svc (calls (log_call (ToolProbe q) s) @ replicate j (ToolProbe q)) q = []"
      using Suc.prems(1)[of "Suc j"] by (simp add: log_call_def)
  next
    show "llm_tool_calls svc (calls (log_call (ToolProbe q) s) @ replicate k (ToolProbe q)) q \<noteq> []"
      using Suc.prems(2) by (simp add: log_call_def)
  next
    show "k < m" using Suc.prems(3) n by simp
  qed
  then show ?case using first n by (simp add: log_call_def)
qed

lemma probe_loop_calls:
  "\<exists>k\<le>n. calls (snd (probe_loop svc q n tcs s)) = calls s @ replicate k (ToolProbe q)
     \<and> out (snd (probe_loop svc q n tcs s)) = out s"
proof (induction n arbitrary: tcs s)
  case 0
  then show ?case by simp
next
  case (Suc n)
  show ?case
  proof (cases "llm_tool_calls svc (calls s) q = []")
    case False
    then have "calls (snd (probe_loop svc q (Suc n) tcs s)) = calls s @ replicate 1 (ToolProbe q)
       \<and> out (snd (probe_loop svc q (Suc n) tcs s)) = out s"
      by (simp add: log_call_def)
    then show ?thesis by (metis One_nat_def Suc_le_mono le0)
  next
    case True
    obtain k where k: "k \<le> n"
      "calls (snd (probe_loop svc q n [] (log_call (ToolProbe q) s))) = calls (log_call (ToolProbe q) s) @ replicate k (ToolProbe q)"
      "out (snd (probe_loop svc q n [] (log_call (ToolProbe q) s))) = out (log_call (ToolProbe q) s)"
      using Suc.IH by blast
    have "calls (snd (probe_loop svc q (Suc n) tcs s)) = calls s @ replicate (Suc k) (ToolProbe q)
       \<and> out (snd (probe_loop svc q (Suc n) tcs s)) = out s"
      using True k by (simp add: log_call_def)
    then show ?thesis using k(1) by (metis Suc_le_mono)
  qed
qed

lemma question_body_all_empty:
  assumes "\<And>j. j < 3 \<Longrightarrow> llm_tool_calls svc (calls (verified svc q s) @ replicate j (ToolProbe q)) q = []"
  shows "question_body svc q s =
     (Break,
      \<lparr>calls = calls s @ [Retrieve q, Generate (primary_prompt svc q s),
                          Verify (primary_response svc q s), ToolProbe q, ToolProbe q, ToolProbe q],
       out = out s @ [Printed apology]\<rparr>)"
proof -
  have "probe_loop svc q 3 [] (verified svc q s) =
          ([], (verified svc q s)\<lparr>calls := calls (verified svc q s) @ replicate 3 (ToolProbe q)\<rparr>)"
    using assms by (intro probe_loop_all_empty) simp_all
  then show ?thesis
    by (simp add: question_body_eq fallback_eq print_line_def verified_eq numeral_3_eq_3)
qed

lemma question_body_first_nonempty:
  assumes "\<And>j. j < k \<Longrightarrow> llm_tool_calls svc (calls (verified svc q s) @ replicate j (ToolProbe q)) q = []"
    and "llm_tool_calls svc (calls (verified svc q s) @ replicate k (ToolProbe q)) q \<noteq> []"
    and "k < 3"
  shows "question_body svc q s =
     (Raise TypeError,
      \<lparr>calls = calls s @ [Retrieve q, Generate (primary_prompt svc q s),
                          Verify (primary_response svc q s)] @ replicate (Suc k) (ToolProbe q),
       out = out s\<rparr>)"
proof -
  have "probe_loop svc q 3 [] (verified svc q s) =
          (llm_tool_calls svc (calls (verified svc q s) @ replicate k (ToolProbe q)) q,
           (verified svc q s)\<lparr>calls := calls (verified svc q s) @ replicate (Suc k) (ToolProbe q)\<rparr>)"
    using assms by (intro probe_loop_first_nonempty) simp_all
  then show ?thesis using assms(2)
    by (simp add: question_body_eq fallback_eq verified_eq)
qed

lemma question_body_calls:
  "\<exists>k\<le>3. calls (snd (question_body svc q s)) =
            calls s @ [Retrieve q, Generate (primary_prompt svc q s),
                       Verify (primary_response svc q s)] @ replicate k (ToolProbe q)"
proof -
  obtain k where k: "k \<le> 3"
    "calls (snd (probe_loop svc q 3 [] (verified svc q s))) =
       calls (verified svc q s) @ replicate k (ToolProbe q)"
    using probe_loop_calls [of 3 svc q "[]" "verified svc q s"] by blast
  have "calls (snd (question_body svc q s)) = calls (snd (probe_loop svc q 3 [] (verified svc q s)))"
    by (simp add: question_body_eq fallback_eq print_line_def)
  then have "calls (snd (question_body svc q s)) =
            calls s @ [Retrieve q, Generate (primary_prompt svc q s),
                       Verify (primary_response svc q s)] @ replicate k (ToolProbe q)"
    using k(2) by (simp add: verified_eq)
  then show ?thesis using k(1) by blast
qed

lemma filter_generate_replicate: "filter is_generate (replicate k (ToolProbe q)) = []"
  by (induction k) simp_all

lemma filter_probe_replicate: "filter is_probe (replicate k (ToolProbe q)) = replicate k (ToolProbe q)"
  by (induction k) simp_all

lemma deterministic_prompt:
  "deterministic svc \<Longrightarrow> primary_prompt svc q s = primary_prompt svc q s'"
  unfolding deterministic_def primary_prompt_def by metis

lemma deterministic_response:
  assumes "deterministic svc"
  shows "primary_response svc q s = primary_response svc q s'"
proof -
  have r: "retriever svc (calls s) q = retriever svc (calls s') q"
    using assms unfolding deterministic_def by blast
  have "llm svc (calls s @ [Retrieve q]) (render answer_template (retriever svc (calls s') q) q)
      = llm svc (calls s' @ [Retrieve q]) (render answer_template (retriever svc (calls s') q) q)"
    using assms unfolding deterministic_def by blast
  then show ?thesis by (simp add: primary_response_def invokellm_eq r)
qed

lemma question_body_deterministic:
  assumes "deterministic svc"
  shows "question_body svc q s =
     (if llm_tool_calls svc [] q = []
      then (Break,
            \<lparr>calls = calls s @ [Retrieve q, Generate (primary_prompt svc q init_state),
                                Verify (primary_response svc q init_state),
                                ToolProbe q, ToolProbe q, ToolProbe q],
             out = out s @ [Printed apology]\<rparr>)
      else (Raise TypeError,
            \<lparr>calls = calls s @ [Retrieve q, Generate (primary_prompt svc q init_state),
                                Verify (primary_response svc q init_state), ToolProbe q],
             out = out s\<rparr>))"
proof -
  have any: "\<And>h. llm_tool_calls svc h q = llm_tool_calls svc [] q"
    using assms unfolding deterministic_def by blast
  have pp: "primary_prompt svc q s = primary_prompt svc q init_state"
    using assms by (rule deterministic_prompt)
  have pr: "primary_response svc q s = primary_response svc q init_state"
    using assms by (rule deterministic_response)
  show ?thesis
  proof (cases "llm_tool_calls svc [] q = []")
    case True
    have "question_body svc q s =
       (Break,
        \<lparr>calls = calls s @ [Retrieve q, Generate (primary_prompt svc q s),
                            Verify (primary_response svc q s), ToolProbe q, ToolProbe q, ToolProbe q],
         out = out s @ [Printed apology]\<rparr>)"
      by (rule question_body_all_empty) (simp add: any [of "calls (verified svc q s) @ _"] True)
    then show ?thesis using True by (simp add: pp pr)
  next
    case False
    have "question_body svc q s =
       (Raise TypeError,
        \<lparr>calls = calls s @ [Retrieve q, Generate (primary_prompt svc q s),
                            Verify (primary_response svc q s)] @ replicate (Suc 0) (ToolProbe q),
         out = out s\<rparr>)"
      by (rule question_body_first_nonempty) (simp_all add: any [of "calls (verified svc q s)"] False)
    then show ?thesis using False by (simp add: pp pr)
  qed
qed

subsection \<open>The session and the no-answer outcome\<close>

text \<open>
  C1. The claim: after a question that ends with the apology, the session accepts
  the next question. On the code, the \<open>break\<close> of line 214 leaves the
  \<open>while\<close> loop: with no tool call on any probe, the session prints the apology
  and ends, and the two lines that follow on standard input are never read.
\<close>

theorem session_stops_after_no_answer:
  "session svc_no_tools [''What is the capital of Korea?'', ''And of Japan?'', ''exit''] init_state =
     (No_answer_break, [''And of Japan?'', ''exit''],
      \<lparr>calls = [Retrieve ''What is the capital of Korea?'',
                Generate (primary_prompt svc_no_tools ''What is the capital of Korea?'' init_state),
                Verify ''I don't know'',
                ToolProbe ''What is the capital of Korea?'',
                ToolProbe ''What is the capital of Korea?'',
                ToolProbe ''What is the capital of Korea?''],
       out = [Prompted ''You: '', Printed apology]\<rparr>)"
  by code_simp

text \<open>
  C2. The claim: when the verifier judges the primary answer grounded, that answer
  is printed and no tool call is generated. On the code, with a groundedness
  service that answers \<open>grounded\<close>, the question runs the three probes, prints
  the apology and not the answer.
\<close>

theorem grounded_verdict_enters_fallback:
  "groundedness svc_grounded [] ''The capital of Korea is Seoul.'' = ''grounded''
   \<and> fst (invokellm svc_grounded ''What is the capital of Korea?'' answer_template init_state)
       = ''The capital of Korea is Seoul.''
   \<and> fst (question_body svc_grounded ''What is the capital of Korea?'' init_state) = Break
   \<and> filter is_probe (calls (snd (question_body svc_grounded ''What is the capital of Korea?'' init_state)))
       = replicate 3 (ToolProbe ''What is the capital of Korea?'')
   \<and> out (snd (question_body svc_grounded ''What is the capital of Korea?'' init_state))
       = [Printed apology]"
  by code_simp

text \<open>
  C4. When the three probes of a question all return an empty list, the question
  prints the apology and calls no service after the third probe: the log gains
  one retrieval, one generation (the primary one), one verification and three
  probes.
\<close>

theorem no_answer_without_regeneration:
  assumes "\<forall>j<3. llm_tool_calls svc (calls (verified svc q s) @ replicate j (ToolProbe q)) q = []"
  shows "question_body svc q s =
     (Break,
      \<lparr>calls = calls s @ [Retrieve q, Generate (primary_prompt svc q s),
                          Verify (primary_response svc q s), ToolProbe q, ToolProbe q, ToolProbe q],
       out = out s @ [Printed apology]\<rparr>)"
  using assms by (intro question_body_all_empty) simp

theorem no_answer_without_regeneration_witness:
  "llm_tool_calls svc_no_tools
       (calls (verified svc_no_tools ''What is the capital of Korea?'' init_state))
       ''What is the capital of Korea?'' = []
   \<and> llm_tool_calls svc_no_tools
       (calls (verified svc_no_tools ''What is the capital of Korea?'' init_state)
          @ [ToolProbe ''What is the capital of Korea?''])
       ''What is the capital of Korea?'' = []
   \<and> llm_tool_calls svc_no_tools
       (calls (verified svc_no_tools ''What is the capital of Korea?'' init_state)
          @ [ToolProbe ''What is the capital of Korea?'', ToolProbe ''What is the capital of Korea?''])
       ''What is the capital of Korea?'' = []
   \<and> question_body svc_no_tools ''What is the capital of Korea?'' init_state =
     (Break,
      \<lparr>calls = [Retrieve ''What is the capital of Korea?'',
                Generate (primary_prompt svc_no_tools ''What is the capital of Korea?'' init_state),
                Verify ''I don't know'',
                ToolProbe ''What is the capital of Korea?'',
                ToolProbe ''What is the capital of Korea?'',
                ToolProbe ''What is the capital of Korea?''],
       out = [Printed apology]\<rparr>)"
proof -
  have h: "\<forall>j<3. llm_tool_calls svc_no_tools
            (calls (verified svc_no_tools ''What is the capital of Korea?'' init_state)
               @ replicate j (ToolProbe ''What is the capital of Korea?''))
            ''What is the capital of Korea?'' = []"
    by (simp add: svc_no_tools_def)
  have r: "primary_response svc_no_tools ''What is the capital of Korea?'' init_state = ''I don't know''"
    by (simp add: primary_response_def invokellm_eq svc_no_tools_def)
  have i: "calls init_state = []" "out init_state = []"
    by (simp_all add: init_state_def)
  have p: "\<And>h. llm_tool_calls svc_no_tools h ''What is the capital of Korea?'' = []"
    by (simp add: svc_no_tools_def)
  show ?thesis
    using no_answer_without_regeneration [OF h] by (simp add: r i p)
qed

subsection \<open>Tool resolution\<close>

text \<open>
  C7. The claim: with at least one tool call within three probes, the regenerated
  answer is printed. On the code, in the scenario where the first probe requests
  a web search, the call of line 218 raises \<open>TypeError\<close>: nothing is printed and
  no generation follows the probe.
\<close>

theorem example_scenario_raises:
  "question_body svc_example ''What is the capital of Korea?'' init_state =
     (Raise TypeError,
      \<lparr>calls = [Retrieve ''What is the capital of Korea?'',
                Generate (primary_prompt svc_example ''What is the capital of Korea?'' init_state),
                Verify ''I don't know'',
                ToolProbe ''What is the capital of Korea?''],
       out = []\<rparr>)"
  by code_simp

text \<open>
  C5. The claim: a request whose name is not a registered tool prints a diagnostic,
  adds nothing to the context, raises nothing, and the requests after it are still
  resolved. On the code, a round that starts with such a request raises
  \<open>TypeError\<close> at line 218 before any diagnostic, and the request after it is not
  resolved. Applied to the request alone, \<open>call_tool_func\<close> prints the diagnostic
  and returns \<open>None\<close>, which \<open>str\<close> at line 218 turns into the text \<open>None\<close>, not
  into the empty text.
\<close>

theorem unknown_tool_raises:
  "resolve_loop svc_example [unknown_tool, search_korea] [] init_state = (Inl TypeError, init_state)
   \<and> call_tool_func svc_example [ToolCallArg unknown_tool] init_state
       = (Inr PyNone, \<lparr>calls = [], out = [Printed ''Tool not found weather_lookup'']\<rparr>)
   \<and> str_py PyNone = ''None''"
  by code_simp

text \<open>
  C8. The claim: for a round with the requests A, B, C the context is the
  concatenation of the three results in that order. On the code, every such round
  raises \<open>TypeError\<close> at the first request and leaves the state as it was: no
  context is aggregated.
\<close>

theorem resolve_three_requests_raises:
  "resolve_loop svc [A, B, C] [] s = (Inl TypeError, s)"
  by (simp add: bound_call_tool_func_def)

text \<open>
  C6, as stated: for every request the lookup of the lower-cased name in the
  module's globals fails, \<open>call_tool_func\<close> returns \<open>None\<close>, and each slot adds
  \<open>None\<close> to the context. It fails for the name \<open>os\<close>, which line 5 binds: the
  lookup succeeds and \<open>os.invoke\<close> raises \<open>AttributeError\<close>. And the loop of lines
  217 and 218 adds nothing for \<open>pdf_search\<close>: the call raises \<open>TypeError\<close>.
\<close>

theorem globals_lookup_counterexample:
  "call_tool_func svc_example [ToolCallArg os_request] init_state = (Inl AttributeError, init_state)
   \<and> resolve_loop svc_example [pdf_request] [] init_state = (Inl TypeError, init_state)"
  by code_simp

text \<open>
  C6, amended. For every request whose lower-cased name is not bound in the
  module's globals, \<open>call_tool_func\<close> applied to the request prints
  \<open>Tool not found\<close> with that name and returns \<open>None\<close>, whose \<open>str\<close> is the
  four-character text \<open>None\<close>; \<open>pdf_search\<close> and \<open>internet_search\<close> are such
  names.
\<close>

theorem unbound_name_returns_None:
  assumes "globals_dict (lower (name tc)) = None"
  shows "call_tool_func svc [ToolCallArg tc] s
           = (Inr PyNone, print_line (''Tool not found '' @ lower (name tc)) s)
         \<and> str_py PyNone = ''None'' \<and> length (str_py PyNone) = 4
         \<and> globals_dict ''pdf_search'' = None \<and> globals_dict ''internet_search'' = None"
proof -
  have "globals_dict ''pdf_search'' = None" by code_simp
  moreover have "globals_dict ''internet_search'' = None" by code_simp
  ultimately show ?thesis using assms by (simp add: Let_def)
qed

theorem unbound_name_returns_None_witness:
  "globals_dict (lower (name pdf_request)) = None
   \<and> call_tool_func svc_example [ToolCallArg pdf_request] init_state
       = (Inr PyNone, \<lparr>calls = [], out = [Printed ''Tool not found pdf_search'']\<rparr>)"
proof -
  have h: "globals_dict (lower (name pdf_request)) = None" by code_simp
  have l: "lower (name pdf_request) = ''pdf_search''" by code_simp
  show ?thesis
    using h unbound_name_returns_None [OF h, of svc_example init_state]
    by (simp add: l print_line_def init_state_def)
qed

subsection \<open>Bounds and determinism\<close>

text \<open>
  C9. One question adds at most two generations (the primary one and at most one
  more) and at most three probes to the log, and the probe loop stops at the first
  probe that returns a non-empty list: if probe \<open>k\<close> (counting from 0) is the first
  such one, the loop returns its list after exactly \<open>k + 1\<close> probes. Every
  function of the model is total, so a question always ends.
\<close>

theorem question_bounded:
  "length (filter is_generate (calls (snd (question_body svc q s))))
     \<le> length (filter is_generate (calls s)) + 2
   \<and> length (filter is_probe (calls (snd (question_body svc q s))))
     \<le> length (filter is_probe (calls s)) + 3
   \<and> (\<forall>k<3. (\<forall>j<k. llm_tool_calls svc (calls t @ replicate j (ToolProbe q)) q = [])
              \<and> llm_tool_calls svc (calls t @ replicate k (ToolProbe q)) q \<noteq> []
        \<longrightarrow> probe_loop svc q 3 [] t =
              (llm_tool_calls svc (calls t @ replicate k (ToolProbe q)) q,
               t\<lparr>calls := calls t @ replicate (Suc k) (ToolProbe q)\<rparr>))"
proof -
  obtain k where k: "k \<le> 3"
    "calls (snd (question_body svc q s)) =
       calls s @ [Retrieve q, Generate (primary_prompt svc q s),
                  Verify (primary_response svc q s)] @ replicate k (ToolProbe q)"
    using question_body_calls by blast
  have g: "length (filter is_generate (calls (snd (question_body svc q s))))
             \<le> length (filter is_generate (calls s)) + 2"
    by (simp add: k(2) filter_generate_replicate)
  have p: "length (filter is_probe (calls (snd (question_body svc q s))))
             \<le> length (filter is_probe (calls s)) + 3"
    using k(1) by (simp add: k(2) filter_probe_replicate)
  have l: "\<forall>k<3. (\<forall>j<k. llm_tool_calls svc (calls t @ replicate j (ToolProbe q)) q = [])
              \<and> llm_tool_calls svc (calls t @ replicate k (ToolProbe q)) q \<noteq> []
        \<longrightarrow> probe_loop svc q 3 [] t =
              (llm_tool_calls svc (calls t @ replicate k (ToolProbe q)) q,
               t\<lparr>calls := calls t @ replicate (Suc k) (ToolProbe q)\<rparr>)"
  proof (intro allI impI)
    fix k :: nat
    assume "k < 3"
      and "(\<forall>j<k. llm_tool_calls svc (calls t @ replicate j (ToolProbe q)) q = [])
              \<and> llm_tool_calls svc (calls t @ replicate k (ToolProbe q)) q \<noteq> []"
    then show "probe_loop svc q 3 [] t =
              (llm_tool_calls svc (calls t @ replicate k (ToolProbe q)) q,
               t\<lparr>calls := calls t @ replicate (Suc k) (ToolProbe q)\<rparr>)"
      by (intro probe_loop_first_nonempty) simp_all
  qed
  show ?thesis using g p l by blast
qed

theorem question_bounded_witness:
  "llm_tool_calls svc_second_try (calls init_state) ''What is the capital of Korea?'' = []
   \<and> llm_tool_calls svc_second_try (calls init_state @ [ToolProbe ''What is the capital of Korea?''])
        ''What is the capital of Korea?'' = [search_korea]
   \<and> probe_loop svc_second_try ''What is the capital of Korea?'' 3 [] init_state =
       ([search_korea],
        \<lparr>calls = [ToolProbe ''What is the capital of Korea?'', ToolProbe ''What is the capital of Korea?''],
         out = []\<rparr>)
   \<and> length (filter is_generate
        (calls (snd (question_body svc_second_try ''What is the capital of Korea?'' init_state)))) \<le> 2
   \<and> length (filter is_probe
        (calls (snd (question_body svc_second_try ''What is the capital of Korea?'' init_state)))) \<le> 3"
proof -
  let ?q = "''What is the capital of Korea?''"
  have i: "calls init_state = []" "out init_state = []"
    by (simp_all add: init_state_def)
  have p0: "llm_tool_calls svc_second_try (calls init_state) ?q = []"
    by (simp add: svc_second_try_def i)
  have p1: "llm_tool_calls svc_second_try (calls init_state @ [ToolProbe ?q]) ?q = [search_korea]"
    by (simp add: svc_second_try_def i)
  have h: "(\<forall>j<1. llm_tool_calls svc_second_try (calls init_state @ replicate j (ToolProbe ?q)) ?q = [])
           \<and> llm_tool_calls svc_second_try (calls init_state @ replicate 1 (ToolProbe ?q)) ?q \<noteq> []"
    using p0 p1 by simp
  have b: "(1::nat) < 3" by simp
  from question_bounded [of svc_second_try ?q init_state init_state]
  have "probe_loop svc_second_try ?q 3 [] init_state =
          (llm_tool_calls svc_second_try (calls init_state @ replicate 1 (ToolProbe ?q)) ?q,
           init_state\<lparr>calls := calls init_state @ replicate (Suc 1) (ToolProbe ?q)\<rparr>)"
    and "length (filter is_generate (calls (snd (question_body svc_second_try ?q init_state))))
           \<le> length (filter is_generate (calls init_state)) + 2"
    and "length (filter is_probe (calls (snd (question_body svc_second_try ?q init_state))))
           \<le> length (filter is_probe (calls init_state)) + 3"
    using h b by blast+
  then show ?thesis using p0 p1 by (simp add: i init_state_def)
qed

text \<open>
  C10. With services that do not depend on the calls made before, a question run
  from any two states (in particular, run a second time after the first run) ends
  the same way, adds the same calls to the log and writes the same output.
\<close>

theorem question_deterministic:
  assumes "deterministic svc"
  shows "fst (question_body svc q s) = fst (question_body svc q s')
         \<and> take (length (calls s)) (calls (snd (question_body svc q s))) = calls s
         \<and> drop (length (calls s)) (calls (snd (question_body svc q s)))
             = drop (length (calls s')) (calls (snd (question_body svc q s')))
         \<and> take (length (out s)) (out (snd (question_body svc q s))) = out s
         \<and> drop (length (out s)) (out (snd (question_body svc q s)))
             = drop (length (out s')) (out (snd (question_body svc q s')))"
  by (simp add: question_body_deterministic [OF assms])

theorem question_deterministic_witness:
  "deterministic svc_example
   \<and> fst (question_body svc_example ''What is the capital of Korea?'' init_state)
       = fst (question_body svc_example ''What is the capital of Korea?''
                (snd (question_body svc_example ''What is the capital of Korea?'' init_state)))
   \<and> drop (length (calls init_state))
        (calls (snd (question_body svc_example ''What is the capital of Korea?'' init_state)))
       = drop (length (calls (snd (question_body svc_example ''What is the capital of Korea?'' init_state))))
           (calls (snd (question_body svc_example ''What is the capital of Korea?''
              (snd (question_body svc_example ''What is the capital of Korea?'' init_state)))))
   \<and> length (calls (snd (question_body svc_example ''What is the capital of Korea?'' init_state))) = 4"
proof -
  have d: "deterministic svc_example"
    by (simp add: deterministic_def svc_example_def svc_no_tools_def)
  have n: "length (calls (snd (question_body svc_example ''What is the capital of Korea?'' init_state))) = 4"
    by code_simp
  show ?thesis
    using d n question_deterministic [OF d, of "''What is the capital of Korea?''" init_state
        "snd (question_body svc_example ''What is the capital of Korea?'' init_state)"]
    by blast
qed

end
